theory Spec2Isabelle
  imports Complex_Main "HOL-Library.Word" "HOL-Library.AList"
begin

section \<open>Python values\<close>

text \<open>
  The client of \<^verbatim>\<open>qwen_image_edit_s3_client.py\<close> passes around JSON bodies and
  result dictionaries. A value is one of Python's \<^verbatim>\<open>None\<close>, \<^verbatim>\<open>bool\<close>, \<^verbatim>\<open>int\<close>,
  \<^verbatim>\<open>float\<close>, \<^verbatim>\<open>str\<close>, \<^verbatim>\<open>list\<close> and \<^verbatim>\<open>dict\<close> (string keys, kept as an
  association list in insertion order). Floats are carried, never computed with, and
  are kept as rationals. Strings are \<^typ>\<open>string\<close>, that is byte characters: the model
  covers ASCII text.
\<close>

datatype pyval =
    PNone
  | PBool bool
  | PInt int
  | PFloat rat
  | PStr string
  | PList "pyval list"
  | PDict "(string \<times> pyval) list"

text \<open>Exceptions that leave a function of the client or are caught inside it.\<close>

datatype exn =
    ValueError | OverflowError | AttributeError | TypeError | OSError | FileExistsError
  | Base64Error

text \<open>Python's truth value of an object, as \<^verbatim>\<open>if x:\<close> and \<^verbatim>\<open>not x\<close> read it.\<close>

fun truthy :: "pyval \<Rightarrow> bool" where
  "truthy PNone = False"
| "truthy (PBool b) = b"
| "truthy (PInt i) = (i \<noteq> 0)"
| "truthy (PFloat r) = (r \<noteq> 0)"
| "truthy (PStr s) = (s \<noteq> [])"
| "truthy (PList xs) = (xs \<noteq> [])"
| "truthy (PDict kvs) = (kvs \<noteq> [])"

text \<open>\<^verbatim>\<open>d.get(k)\<close> and \<^verbatim>\<open>d.get(k, default)\<close> on a dictionary.\<close>

definition dict_get_default :: "(string \<times> pyval) list \<Rightarrow> string \<Rightarrow> pyval \<Rightarrow> pyval" where
  "dict_get_default d k dflt = (case map_of d k of None \<Rightarrow> dflt | Some v \<Rightarrow> v)"

definition dict_get :: "(string \<times> pyval) list \<Rightarrow> string \<Rightarrow> pyval" where
  "dict_get d k = dict_get_default d k PNone"

text \<open>
  \<^verbatim>\<open>x.get(k)\<close> on any value: only a dictionary has the method, every other value
  raises \<^verbatim>\<open>AttributeError\<close>.
\<close>

definition py_get :: "pyval \<Rightarrow> string \<Rightarrow> exn + pyval" where
  "py_get x k = (case x of PDict d \<Rightarrow> Inr (dict_get d k) | _ \<Rightarrow> Inl AttributeError)"

section \<open>Strings and paths\<close>

text \<open>\<^verbatim>\<open>str.lower\<close> on ASCII text.\<close>

definition lower_char :: "char \<Rightarrow> char" where
  "lower_char c =
     (case map_of (zip ''ABCDEFGHIJKLMNOPQRSTUVWXYZ'' ''abcdefghijklmnopqrstuvwxyz'') c of
        Some l \<Rightarrow> l
      | None \<Rightarrow> c)"

definition lower :: "string \<Rightarrow> string" where
  "lower s = map lower_char s"

text \<open>\<^verbatim>\<open>s.endswith(suffix)\<close>, and \<^verbatim>\<open>s.endswith(tuple)\<close>: some member is a suffix.\<close>

definition endswith :: "string \<Rightarrow> string \<Rightarrow> bool" where
  "endswith s suf = (drop (length s - length suf) s = suf)"

definition endswith_any :: "string \<Rightarrow> string list \<Rightarrow> bool" where
  "endswith_any s sufs = (\<exists>suf \<in> set sufs. endswith s suf)"

text \<open>\<^verbatim>\<open>str(n)\<close> of an integer: decimal digits, with a minus sign when negative.\<close>

definition digit_char :: "nat \<Rightarrow> char" where
  "digit_char d = ''0123456789'' ! d"

function str_nat :: "nat \<Rightarrow> string" where
  "str_nat n = (if n < 10 then [digit_char n] else str_nat (n div 10) @ [digit_char (n mod 10)])"
  by pat_completeness auto
termination
  by (relation "measure id") auto

definition str_int :: "int \<Rightarrow> string" where
  "str_int i = (if i < 0 then CHR ''-'' # str_nat (nat (- i)) else str_nat (nat i))"

text \<open>\<^verbatim>\<open>int(x)\<close> of a float truncates towards zero.\<close>

definition py_int :: "rat \<Rightarrow> int" where
  "py_int r = (if 0 \<le> r then \<lfloor>r\<rfloor> else \<lceil>r\<rceil>)"

text \<open>
  \<^verbatim>\<open>os.path.basename\<close>, \<^verbatim>\<open>os.path.dirname\<close> and \<^verbatim>\<open>os.path.join\<close> (two
  arguments) of \<^verbatim>\<open>posixpath\<close>, and \<^verbatim>\<open>pathlib.Path(name).stem\<close> of a file name.
\<close>

definition basename :: "string \<Rightarrow> string" where
  "basename p = rev (takeWhile (\<lambda>c. c \<noteq> CHR ''/'') (rev p))"

definition rstrip_sep :: "string \<Rightarrow> string" where
  "rstrip_sep p = rev (dropWhile (\<lambda>c. c = CHR ''/'') (rev p))"

definition dirname :: "string \<Rightarrow> string" where
  "dirname p =
     (let head = rev (dropWhile (\<lambda>c. c \<noteq> CHR ''/'') (rev p)) in
      if head \<noteq> [] \<and> head \<noteq> replicate (length head) (CHR ''/'') then rstrip_sep head
      else head)"

definition path_join :: "string \<Rightarrow> string \<Rightarrow> string" where
  "path_join a b =
     (if b \<noteq> [] \<and> hd b = CHR ''/'' then b
      else if a = [] \<or> last a = CHR ''/'' then a @ b
      else a @ ''/'' @ b)"

definition stem :: "string \<Rightarrow> string" where
  "stem p =
     (let name = basename (rstrip_sep p);
          after = length (takeWhile (\<lambda>c. c \<noteq> CHR ''.'') (rev name))
      in if CHR ''.'' \<in> set name \<and> 0 < length name - 1 - after \<and> 0 < after
         then take (length name - 1 - after) name
         else name)"

section \<open>The world the client acts on\<close>

text \<open>
  Everything outside the program is one state that the functions pass along:
  \<^item> \<open>clock\<close>: what \<^verbatim>\<open>time.time()\<close> returns, in seconds;
  \<^item> \<open>cwd\<close>: the working directory, as the list of names that leads to it from the
    root;
  \<^item> \<open>fs\<close>: the file system: every file and directory under the list of names that
    leads to it from the root, in the order in which a directory lists them;
  \<^item> \<open>s3_script\<close>: whether each coming transfer to the object store succeeds;
  \<^item> \<open>post_script\<close>, \<open>get_script\<close>: the outcome of each coming HTTP request; a status
    request also takes the time given with it. When a script is used up the
    service is unreachable: a transfer fails, a request raises a request error;
  \<^item> \<open>calls\<close>: the network calls and sleeps made so far, oldest first;
  \<^item> \<open>logs\<close>: the records written to the logger, with their level and the fixed text
    of the message (pictographs and interpolated values left out).
  The file system is that of Linux with no symbolic links and every directory
  searchable and writable.
\<close>

type_synonym byte = "8 word"

datatype node = File "byte list" | Dir

datatype level = INFO | WARNING | ERROR

text \<open>
  A request either raises a \<^verbatim>\<open>requests.exceptions.RequestException\<close> (no connection,
  a timeout, an error status at \<^verbatim>\<open>raise_for_status\<close>, a body that is not JSON) or
  yields the parsed JSON body.
\<close>

datatype http_outcome = RequestError | Response pyval

datatype call =
    S3Upload string string string
  | HttpPost string pyval
  | HttpGet string pyval
  | Sleep int

record world =
  clock :: rat
  cwd :: "string list"
  fs :: "(string list \<times> node) list"
  s3_script :: "bool list"
  post_script :: "http_outcome list"
  get_script :: "(rat \<times> http_outcome) list"
  calls :: "call list"
  logs :: "(level \<times> string) list"

definition logmsg :: "level \<Rightarrow> string \<Rightarrow> world \<Rightarrow> world" where
  "logmsg lvl msg w = w\<lparr>logs := logs w @ [(lvl, msg)]\<rparr>"

definition time_time :: "world \<Rightarrow> rat" where
  "time_time w = clock w"

text \<open>
  \<^verbatim>\<open>time.sleep(secs)\<close> with an integer: \<^verbatim>\<open>ValueError\<close> on a negative length,
  \<^verbatim>\<open>OSError\<close> at 9223372036 and \<^verbatim>\<open>OverflowError\<close> above, where the length no
  longer fits the clock of the system.
\<close>

definition sleep :: "int \<Rightarrow> world \<Rightarrow> exn + world" where
  "sleep secs w =
     (if secs < 0 then Inl ValueError
      else if secs = 9223372036 then Inl OSError
      else if 9223372036 < secs then Inl OverflowError
      else Inr (w\<lparr>clock := clock w + of_int secs, calls := calls w @ [Sleep secs]\<rparr>))"

subsection \<open>Paths and the file system\<close>

text \<open>
  A path is resolved as the kernel does it: it is cut at every \<^verbatim>\<open>/\<close>; the walk starts
  at the root for a path that begins with \<^verbatim>\<open>/\<close> and at the working directory
  otherwise; every step needs the place where it stands to be a directory; an empty
  name and \<^verbatim>\<open>.\<close> stay, \<^verbatim>\<open>..\<close> goes up (the root is its own parent), any other name
  goes down, whether or not something is there. A path is refused when it is empty,
  holds a null character, is 4096 characters or longer, or has a name longer than 255.
\<close>

definition node_at :: "world \<Rightarrow> string list \<Rightarrow> node option" where
  "node_at w q = map_of (fs w) q"

fun split_sep :: "string \<Rightarrow> string list" where
  "split_sep [] = [[]]"
| "split_sep (c # cs) =
     (if c = CHR ''/'' then [] # split_sep cs
      else (case split_sep cs of [] \<Rightarrow> [[c]] | x # xs \<Rightarrow> (c # x) # xs))"

fun walk :: "(string list \<Rightarrow> node option) \<Rightarrow> string list \<Rightarrow> string list \<Rightarrow> exn + string list" where
  "walk f cur [] = Inr cur"
| "walk f cur (c # cs) =
     (if f cur \<noteq> Some Dir then Inl OSError
      else if c = [] \<or> c = ''.'' then walk f cur cs
      else if c = ''..'' then
        (if f (butlast cur) \<noteq> Some Dir then Inl OSError else walk f (butlast cur) cs)
      else walk f (cur @ [c]) cs)"

definition path_ok :: "string \<Rightarrow> bool" where
  "path_ok p = (p \<noteq> [] \<and> CHR 0x00 \<notin> set p \<and> length p < 4096
                \<and> (\<forall>c \<in> set (split_sep p). length c \<le> 255))"

definition resolve :: "world \<Rightarrow> string \<Rightarrow> exn + string list" where
  "resolve w p =
     (if \<not> path_ok p then Inl OSError
      else walk (node_at w) (if hd p = CHR ''/'' then [] else cwd w) (split_sep p))"

text \<open>\<^verbatim>\<open>os.path.exists\<close>, \<^verbatim>\<open>os.path.isdir\<close>, \<^verbatim>\<open>os.path.isfile\<close> and \<^verbatim>\<open>os.listdir\<close>.\<close>

definition path_exists :: "world \<Rightarrow> string \<Rightarrow> bool" where
  "path_exists w p = (case resolve w p of Inl e \<Rightarrow> False | Inr q \<Rightarrow> node_at w q \<noteq> None)"

definition isdir :: "world \<Rightarrow> string \<Rightarrow> bool" where
  "isdir w p = (case resolve w p of Inl e \<Rightarrow> False | Inr q \<Rightarrow> node_at w q = Some Dir)"

definition isfile :: "world \<Rightarrow> string \<Rightarrow> bool" where
  "isfile w p =
     (case resolve w p of
        Inl e \<Rightarrow> False
      | Inr q \<Rightarrow> (case node_at w q of Some (File bs) \<Rightarrow> True | _ \<Rightarrow> False))"

definition listdir :: "world \<Rightarrow> string \<Rightarrow> exn + string list" where
  "listdir w p =
     (case resolve w p of
        Inl e \<Rightarrow> Inl e
      | Inr q \<Rightarrow>
          if node_at w q = Some Dir
          then Inr (map (\<lambda>(k, n). last k) (filter (\<lambda>(k, n). k \<noteq> [] \<and> butlast k = q) (fs w)))
          else Inl OSError)"

text \<open>
  \<^verbatim>\<open>os.mkdir(p)\<close>: slashes at the end of the path do not count; it raises
  \<^verbatim>\<open>FileExistsError\<close> when something is there already.
\<close>

definition mkdir :: "string \<Rightarrow> world \<Rightarrow> exn + world" where
  "mkdir p w =
     (if \<not> path_ok p then Inl OSError
      else
        case walk (node_at w) (if hd p = CHR ''/'' then [] else cwd w)
               (split_sep (if rstrip_sep p = [] then ''/'' else rstrip_sep p)) of
          Inl e \<Rightarrow> Inl e
        | Inr q \<Rightarrow>
            if node_at w q \<noteq> None then Inl FileExistsError
            else Inr (w\<lparr>fs := AList.update q Dir (fs w)\<rparr>))"

text \<open>
  \<^verbatim>\<open>os.makedirs(name, exist_ok=True)\<close>, as the standard library writes it: \<open>split_head\<close>
  and \<open>split_tail\<close> are the \<^verbatim>\<open>head, tail\<close> it takes from \<^verbatim>\<open>os.path.split\<close> (a second
  time when the tail is empty); the directories above are made first when the head
  does not exist, a \<^verbatim>\<open>FileExistsError\<close> from there is passed over, and the last step
  is \<^verbatim>\<open>mkdir\<close>, whose error is passed over when the directory is there. The result is
  the exception raised, if any, and the world as it is then.
\<close>

definition mkdir_exist_ok :: "string \<Rightarrow> world \<Rightarrow> exn option \<times> world" where
  "mkdir_exist_ok name w =
     (case mkdir name w of
        Inr w' \<Rightarrow> (None, w')
      | Inl e \<Rightarrow> if \<not> isdir w name then (Some e, w) else (None, w))"

definition split_head :: "string \<Rightarrow> string" where
  "split_head name = (if basename name = [] then dirname (dirname name) else dirname name)"

definition split_tail :: "string \<Rightarrow> string" where
  "split_tail name = (if basename name = [] then basename (dirname name) else basename name)"

function makedirs :: "string \<Rightarrow> world \<Rightarrow> exn option \<times> world" where
  "makedirs name w =
     (if split_head name \<noteq> [] \<and> split_tail name \<noteq> [] \<and> \<not> path_exists w (split_head name) then
        (case makedirs (split_head name) w of
           (Some e, w') \<Rightarrow>
             if e \<noteq> FileExistsError then (Some e, w')
             else if split_tail name = ''.'' then (None, w')
             else mkdir_exist_ok name w'
         | (None, w') \<Rightarrow>
             if split_tail name = ''.'' then (None, w')
             else mkdir_exist_ok name w')
      else mkdir_exist_ok name w)"
  by pat_completeness auto
termination
proof -
  have strip: "length (rstrip_sep h) \<le> length h" for h
    unfolding rstrip_sep_def using length_dropWhile_le [of _ "rev h"] by simp
  have le: "length (dirname p) \<le> length p" for p
  proof -
    let ?h = "rev (dropWhile (\<lambda>c. c \<noteq> CHR ''/'') (rev p))"
    have h: "length ?h \<le> length p"
      using length_dropWhile_le [of _ "rev p"] by simp
    have "length (rstrip_sep ?h) \<le> length p"
      using strip [of ?h] h by (rule le_trans)
    with h show ?thesis
      by (simp add: dirname_def Let_def)
  qed
  have less: "length (dirname p) < length p" if "basename p \<noteq> []" for p
  proof -
    let ?h = "rev (dropWhile (\<lambda>c. c \<noteq> CHR ''/'') (rev p))"
    from that have t: "takeWhile (\<lambda>c. c \<noteq> CHR ''/'') (rev p) \<noteq> []"
      by (simp add: basename_def)
    have "length (takeWhile (\<lambda>c. c \<noteq> CHR ''/'') (rev p))
        + length (dropWhile (\<lambda>c. c \<noteq> CHR ''/'') (rev p)) = length (rev p)"
      by (metis length_append takeWhile_dropWhile_id)
    with t have h: "length ?h < length p"
      by (cases "takeWhile (\<lambda>c. c \<noteq> CHR ''/'') (rev p)") auto
    have "length (rstrip_sep ?h) < length p"
      using strip [of ?h] h by (rule le_less_trans)
    with h show ?thesis
      by (simp add: dirname_def Let_def)
  qed
  have shorter: "length (split_head name) < length name" if "split_tail name \<noteq> []" for name
    using that less [of name] less [of "dirname name"] le [of name]
    unfolding split_head_def split_tail_def by (auto split: if_splits)
  show ?thesis
    by (relation "measure (\<lambda>(name, w). length name)") (auto simp: shorter)
qed

declare makedirs.simps [simp del]

text \<open>
  \<^verbatim>\<open>with open(p, 'wb') as f: f.write(bs)\<close>: the file is made or replaced; the path
  must not lead to a directory. \<open>read_file\<close> is what reading the path gives.
  \<open>parent_dir\<close> is \<^verbatim>\<open>os.path.dirname(p) or '.'\<close>.
\<close>

definition write_file :: "string \<Rightarrow> byte list \<Rightarrow> world \<Rightarrow> exn + world" where
  "write_file p bs w =
     (case resolve w p of
        Inl e \<Rightarrow> Inl e
      | Inr q \<Rightarrow>
          if node_at w q = Some Dir then Inl OSError
          else Inr (w\<lparr>fs := AList.update q (File bs) (fs w)\<rparr>))"

definition read_file :: "world \<Rightarrow> string \<Rightarrow> exn + byte list" where
  "read_file w p =
     (case resolve w p of
        Inl e \<Rightarrow> Inl e
      | Inr q \<Rightarrow> (case node_at w q of Some (File bs) \<Rightarrow> Inr bs | _ \<Rightarrow> Inl OSError))"

definition parent_dir :: "string \<Rightarrow> string" where
  "parent_dir p = (if dirname p = [] then ''.'' else dirname p)"

text \<open>
  \<^verbatim>\<open>s3_client.upload_file(file, bucket, key)\<close>: the call is recorded; it succeeds
  when the script says so and the path is a regular file, and raises otherwise.
\<close>

definition s3_upload_file :: "string \<Rightarrow> string \<Rightarrow> string \<Rightarrow> world \<Rightarrow> bool \<times> world" where
  "s3_upload_file file bucket key w =
     (let w1 = w\<lparr>calls := calls w @ [S3Upload file bucket key]\<rparr> in
      case s3_script w of
        [] \<Rightarrow> (False, w1)
      | ok # rest \<Rightarrow> (ok \<and> isfile w file, w1\<lparr>s3_script := rest\<rparr>))"

text \<open>
  \<^verbatim>\<open>session.post(url, json=body)\<close> and \<^verbatim>\<open>session.get(f"{url}/{job_id}")\<close>, each
  followed by \<^verbatim>\<open>raise_for_status()\<close> and \<^verbatim>\<open>json()\<close>.
\<close>

definition http_post :: "string \<Rightarrow> pyval \<Rightarrow> world \<Rightarrow> http_outcome \<times> world" where
  "http_post url body w =
     (let w1 = w\<lparr>calls := calls w @ [HttpPost url body]\<rparr> in
      case post_script w of
        [] \<Rightarrow> (RequestError, w1)
      | r # rest \<Rightarrow> (r, w1\<lparr>post_script := rest\<rparr>))"

definition http_get :: "string \<Rightarrow> pyval \<Rightarrow> world \<Rightarrow> http_outcome \<times> world" where
  "http_get url job_id w =
     (let w1 = w\<lparr>calls := calls w @ [HttpGet url job_id]\<rparr> in
      case get_script w of
        [] \<Rightarrow> (RequestError, w1)
      | (lat, r) # rest \<Rightarrow> (r, w1\<lparr>get_script := rest, clock := clock w + lat\<rparr>))"

section \<open>The client\<close>

record client =
  runpod_endpoint_id :: string
  runpod_api_key :: string
  runpod_api_endpoint :: string
  status_url :: string
  s3_endpoint_url :: string
  s3_access_key_id :: string
  s3_secret_access_key :: string
  s3_bucket_name :: string
  s3_region :: string

definition init_client ::
  "string \<Rightarrow> string \<Rightarrow> string \<Rightarrow> string \<Rightarrow> string \<Rightarrow> string \<Rightarrow> string \<Rightarrow> world \<Rightarrow> client \<times> world" where
  "init_client endpoint_id api_key endpoint_url access_key_id secret_access_key bucket_name region w =
     (\<lparr> runpod_endpoint_id = endpoint_id,
         runpod_api_key = api_key,
         runpod_api_endpoint = ''https://api.runpod.ai/v2/'' @ endpoint_id @ ''/run'',
         status_url = ''https://api.runpod.ai/v2/'' @ endpoint_id @ ''/status'',
         s3_endpoint_url = endpoint_url,
         s3_access_key_id = access_key_id,
         s3_secret_access_key = secret_access_key,
         s3_bucket_name = bucket_name,
         s3_region = region \<rparr>,
      logmsg INFO ''QwenImageEditS3Client initialized - Endpoint: '' w)"

subsection \<open>upload_to_s3\<close>

text \<open>
  The result is \<open>None\<close> on failure and the storage path otherwise. The whole body is
  inside \<^verbatim>\<open>try ... except Exception\<close>, so a failed transfer is a \<open>None\<close> too.
\<close>

definition upload_to_s3 :: "client \<Rightarrow> string \<Rightarrow> string \<Rightarrow> world \<Rightarrow> string option \<times> world" where
  "upload_to_s3 c file_path s3_key w =
     (if \<not> path_exists w file_path then (None, logmsg ERROR ''File does not exist: '' w)
      else
        let w1 = logmsg INFO ''S3 upload started: '' w;
            (ok, w2) = s3_upload_file file_path (s3_bucket_name c) s3_key w1
        in if ok then (Some (''/runpod-volume/'' @ s3_key), logmsg INFO ''S3 upload successful: '' w2)
           else (None, logmsg ERROR ''S3 upload failed: '' w2))"

subsection \<open>submit_job\<close>

text \<open>
  Only a \<^verbatim>\<open>RequestException\<close> is caught: a JSON body that is not an object makes
  \<^verbatim>\<open>response_data.get\<close> raise, and that exception leaves the function.
\<close>

definition submit_job :: "client \<Rightarrow> pyval \<Rightarrow> world \<Rightarrow> (exn + pyval option) \<times> world" where
  "submit_job c input_data w =
     (let payload = PDict [(''input'', input_data)];
          w1 = logmsg INFO ''Submitting job to RunPod: '' w;
          w2 = logmsg INFO ''Input data: '' w1;
          (resp, w3) = http_post (runpod_api_endpoint c) payload w2
      in case resp of
           RequestError \<Rightarrow> (Inr None, logmsg ERROR ''Job submission failed: '' w3)
         | Response response_data \<Rightarrow>
             (case py_get response_data ''id'' of
                Inl e \<Rightarrow> (Inl e, w3)
              | Inr job_id \<Rightarrow>
                  if truthy job_id
                  then (Inr (Some job_id), logmsg INFO ''Job submission successful! Job ID: '' w3)
                  else (Inr None, logmsg ERROR ''Failed to receive Job ID: '' w3)))"

subsection \<open>wait_for_completion\<close>

text \<open>
  One pass through the body of the \<^verbatim>\<open>while\<close> loop: the status request inside
  \<^verbatim>\<open>try\<close>, the four branches on the status, and the \<^verbatim>\<open>except\<close> clause for a
  request error. The pass either returns from the function (with a result dictionary,
  or with an exception that is not a request error) or goes on to the next test of
  the loop condition.
\<close>

datatype poll = Continue world | Return "exn + pyval" world

definition poll_once :: "client \<Rightarrow> pyval \<Rightarrow> int \<Rightarrow> world \<Rightarrow> poll" where
  "poll_once c job_id check_interval w =
     (let w1 = logmsg INFO ''Checking job status... (Job ID: '' w;
          (resp, w2) = http_get (status_url c) job_id w1
      in case resp of
           RequestError \<Rightarrow>
             (let w3 = logmsg ERROR ''Error checking status: '' w2 in
              case sleep check_interval w3 of
                Inl e \<Rightarrow> Return (Inl e) w3
              | Inr w4 \<Rightarrow> Continue w4)
         | Response status_data \<Rightarrow>
             (case status_data of
                PDict d \<Rightarrow>
                  (let status = dict_get d ''status'' in
                   if status = PStr ''COMPLETED'' then
                     Return (Inr (PDict [(''status'', PStr ''COMPLETED''),
                                         (''output'', dict_get d ''output''),
                                         (''job_id'', job_id)]))
                            (logmsg INFO ''Job completed!'' w2)
                   else if status = PStr ''FAILED'' then
                     Return (Inr (PDict [(''status'', PStr ''FAILED''),
                                         (''error'', dict_get_default d ''error'' (PStr ''Unknown error'')),
                                         (''job_id'', job_id)]))
                            (logmsg ERROR ''Job failed.'' w2)
                   else if status \<in> set [PStr ''IN_QUEUE'', PStr ''IN_PROGRESS''] then
                     (let w3 = logmsg INFO ''Job in progress... (status: '' w2 in
                      case sleep check_interval w3 of
                        Inl e \<Rightarrow> Return (Inl e) w3
                      | Inr w4 \<Rightarrow> Continue w4)
                   else
                     Return (Inr (PDict [(''status'', PStr ''UNKNOWN''),
                                         (''data'', status_data),
                                         (''job_id'', job_id)]))
                            (logmsg WARNING ''Unknown status: '' w2))
              | _ \<Rightarrow> Return (Inl AttributeError) w2))"

text \<open>
  The loop itself. It need not end (the clock may stand still), so it is a partial
  function: \<open>None\<close> is a run that never returns.
\<close>

partial_function (option) wait_loop ::
  "client \<Rightarrow> pyval \<Rightarrow> int \<Rightarrow> int \<Rightarrow> rat \<Rightarrow> world \<Rightarrow> ((exn + pyval) \<times> world) option" where
  "wait_loop c job_id check_interval max_wait_time start_time w =
     (if time_time w - start_time < of_int max_wait_time then
        (case poll_once c job_id check_interval w of
           Return r w' \<Rightarrow> Some (r, w')
         | Continue w' \<Rightarrow> wait_loop c job_id check_interval max_wait_time start_time w')
      else Some (Inr (PDict [(''status'', PStr ''TIMEOUT''), (''job_id'', job_id)]),
                 logmsg ERROR ''Job wait timeout ('' w))"

definition wait_for_completion ::
  "client \<Rightarrow> pyval \<Rightarrow> int \<Rightarrow> int \<Rightarrow> world \<Rightarrow> ((exn + pyval) \<times> world) option" where
  "wait_for_completion c job_id check_interval max_wait_time w =
     wait_loop c job_id check_interval max_wait_time (time_time w) w"

subsection \<open>Base64\<close>

text \<open>
  \<^verbatim>\<open>base64.b64decode(s)\<close> of the standard library, in its default mode: a string
  with a character outside ASCII is refused; characters outside the alphabet are
  skipped; the input ends at a complete padding; what is left over otherwise is an
  error (\<^verbatim>\<open>binascii.Error\<close>). The decoder keeps the position in the group of four,
  the bits left from the character before and the padding characters seen.
  \<open>b64encode\<close> is the standard encoding with padding.
\<close>

definition b64_alphabet :: string where
  "b64_alphabet = ''ABCDEFGHIJKLMNOPQRSTUVWXYZabcdefghijklmnopqrstuvwxyz0123456789+/''"

definition b64_char :: "nat \<Rightarrow> char" where
  "b64_char n = b64_alphabet ! n"

definition b64_value :: "char \<Rightarrow> nat option" where
  "b64_value c = map_of (zip b64_alphabet [0..<64]) c"

fun b64encode :: "byte list \<Rightarrow> string" where
  "b64encode [] = []"
| "b64encode [a] =
     [b64_char (unat a div 4), b64_char (unat a mod 4 * 16), CHR ''='', CHR ''='']"
| "b64encode [a, b] =
     [b64_char (unat a div 4), b64_char (unat a mod 4 * 16 + unat b div 16),
      b64_char (unat b mod 16 * 4), CHR ''='']"
| "b64encode (a # b # c # rest) =
     [b64_char (unat a div 4), b64_char (unat a mod 4 * 16 + unat b div 16),
      b64_char (unat b mod 16 * 4 + unat c div 64), b64_char (unat c mod 64)]
     @ b64encode rest"

fun a2b_base64 :: "nat \<Rightarrow> nat \<Rightarrow> nat \<Rightarrow> byte list \<Rightarrow> string \<Rightarrow> exn + byte list" where
  "a2b_base64 quad_pos leftchar pads out [] =
     (if quad_pos = 0 then Inr out else Inl Base64Error)"
| "a2b_base64 quad_pos leftchar pads out (c # cs) =
     (if c = CHR ''='' then
        (if 2 \<le> quad_pos \<and> 4 \<le> quad_pos + (pads + 1) then Inr out
         else a2b_base64 quad_pos leftchar (if 2 \<le> quad_pos then pads + 1 else pads) out cs)
      else
        case b64_value c of
          None \<Rightarrow> a2b_base64 quad_pos leftchar pads out cs
        | Some v \<Rightarrow>
            if quad_pos = 0 then a2b_base64 1 v 0 out cs
            else if quad_pos = 1 then
              a2b_base64 2 (v mod 16) 0 (out @ [of_nat (leftchar * 4 + v div 16)]) cs
            else if quad_pos = 2 then
              a2b_base64 3 (v mod 4) 0 (out @ [of_nat (leftchar * 16 + v div 4)]) cs
            else
              a2b_base64 0 0 0 (out @ [of_nat (leftchar * 64 + v)]) cs)"

definition b64decode :: "string \<Rightarrow> exn + byte list" where
  "b64decode s =
     (if \<exists>c \<in> set s. digit7 c then Inl ValueError else a2b_base64 0 0 0 [] s)"

subsection \<open>save_image_result\<close>

text \<open>
  Every exception inside is caught (\<^verbatim>\<open>except Exception\<close>) and turned into
  \<open>False\<close>. \<open>after_comma\<close> is \<^verbatim>\<open>image_b64.split(',', 1)[1]\<close>.
\<close>

definition after_comma :: "string \<Rightarrow> string" where
  "after_comma s = tl (dropWhile (\<lambda>c. c \<noteq> CHR '','') s)"

definition save_image_result :: "pyval \<Rightarrow> string \<Rightarrow> world \<Rightarrow> bool \<times> world" where
  "save_image_result result output_path w =
     (case result of
        PDict r \<Rightarrow>
          if dict_get r ''status'' \<noteq> PStr ''COMPLETED''
          then (False, logmsg ERROR ''Job not completed: '' w)
          else
            (case py_get (dict_get_default r ''output'' (PDict [])) ''image'' of
               Inl e \<Rightarrow> (False, logmsg ERROR ''Image save failed: '' w)
             | Inr image_b64 \<Rightarrow>
                 if \<not> truthy image_b64 then (False, logmsg ERROR ''No image data available'' w)
                 else
                   (case makedirs (parent_dir output_path) w of
                      (Some e, w1) \<Rightarrow> (False, logmsg ERROR ''Image save failed: '' w1)
                    | (None, w1) \<Rightarrow>
                        (case image_b64 of
                           PStr s \<Rightarrow>
                             (case b64decode (if CHR '','' \<in> set s then after_comma s else s) of
                                Inl e \<Rightarrow> (False, logmsg ERROR ''Image save failed: '' w1)
                              | Inr decoded_image \<Rightarrow>
                                  (case write_file output_path decoded_image w1 of
                                     Inl e \<Rightarrow> (False, logmsg ERROR ''Image save failed: '' w1)
                                   | Inr w2 \<Rightarrow> (True, logmsg INFO ''Image saved successfully: '' w2)))
                         | _ \<Rightarrow> (False, logmsg ERROR ''Image save failed: '' w1))))
      | _ \<Rightarrow> (False, logmsg ERROR ''Image save failed: '' w))"

subsection \<open>edit_single_image and edit_dual_image\<close>

text \<open>
  Both end in \<open>wait_for_completion\<close> with its default interval of 10 and maximum wait
  of 1800 seconds. An exception that leaves \<open>submit_job\<close> or \<open>wait_for_completion\<close>
  leaves these functions too.
\<close>

definition error_result :: "string \<Rightarrow> pyval" where
  "error_result msg = PDict [(''error'', PStr msg)]"

definition edit_single_image ::
  "client \<Rightarrow> string \<Rightarrow> string \<Rightarrow> int \<Rightarrow> int \<Rightarrow> int \<Rightarrow> int \<Rightarrow> rat \<Rightarrow> string \<Rightarrow> bool \<Rightarrow> world
   \<Rightarrow> ((exn + pyval) \<times> world) option" where
  "edit_single_image c image_path prompt seed width height steps cfg negative_prompt use_lightning w =
     (if \<not> path_exists w image_path
      then Some (Inr (error_result (''Image file does not exist: '' @ image_path)), w)
      else
        let timestamp = py_int (time_time w);
            image_s3_key = ''input/qwen/'' @ str_int timestamp @ ''_'' @ basename image_path;
            (image_s3_path, w1) = upload_to_s3 c image_path image_s3_key w
        in case image_s3_path of
             None \<Rightarrow> Some (Inr (error_result ''Image S3 upload failed''), w1)
           | Some s3_path \<Rightarrow>
               if s3_path = [] then Some (Inr (error_result ''Image S3 upload failed''), w1)
               else
                 let steps' = (if use_lightning then 4 else steps);
                     w2 = (if use_lightning
                           then logmsg INFO ''Lightning mode enabled: using 4 steps for faster generation'' w1
                           else w1);
                     input_data = PDict [(''image_path'', PStr s3_path),
                                         (''prompt'', PStr prompt),
                                         (''seed'', PInt seed),
                                         (''width'', PInt width),
                                         (''height'', PInt height),
                                         (''steps'', PInt steps'),
                                         (''cfg'', PFloat cfg),
                                         (''negative_prompt'', PStr negative_prompt)]
                 in (case submit_job c input_data w2 of
                       (Inl e, w3) \<Rightarrow> Some (Inl e, w3)
                     | (Inr None, w3) \<Rightarrow> Some (Inr (error_result ''Job submission failed''), w3)
                     | (Inr (Some job_id), w3) \<Rightarrow> wait_for_completion c job_id 10 1800 w3))"

definition edit_dual_image ::
  "client \<Rightarrow> string \<Rightarrow> string \<Rightarrow> string \<Rightarrow> int \<Rightarrow> int \<Rightarrow> int \<Rightarrow> int \<Rightarrow> rat \<Rightarrow> string \<Rightarrow> bool \<Rightarrow> world
   \<Rightarrow> ((exn + pyval) \<times> world) option" where
  "edit_dual_image c image_path image_path_2 prompt seed width height steps cfg negative_prompt
     use_lightning w =
     (if \<not> path_exists w image_path
      then Some (Inr (error_result (''First image file does not exist: '' @ image_path)), w)
      else if \<not> path_exists w image_path_2
      then Some (Inr (error_result (''Second image file does not exist: '' @ image_path_2)), w)
      else
        let timestamp = py_int (time_time w);
            image_s3_key = ''input/qwen/'' @ str_int timestamp @ ''_donor_'' @ basename image_path;
            (image_s3_path, w1) = upload_to_s3 c image_path image_s3_key w
        in case image_s3_path of
             None \<Rightarrow> Some (Inr (error_result ''First image S3 upload failed''), w1)
           | Some s3_path \<Rightarrow>
               if s3_path = [] then Some (Inr (error_result ''First image S3 upload failed''), w1)
               else
                 let image_s3_key_2 =
                       ''input/qwen/'' @ str_int timestamp @ ''_canvas_'' @ basename image_path_2;
                     (image_s3_path_2, w2) = upload_to_s3 c image_path_2 image_s3_key_2 w1
                 in (case image_s3_path_2 of
                      None \<Rightarrow> Some (Inr (error_result ''Second image S3 upload failed''), w2)
                    | Some s3_path_2 \<Rightarrow>
                        if s3_path_2 = []
                        then Some (Inr (error_result ''Second image S3 upload failed''), w2)
                        else
                          let steps' = (if use_lightning then 4 else steps);
                              w3 = (if use_lightning
                                    then logmsg INFO ''Lightning mode enabled: using 4 steps for faster generation'' w2
                                    else w2);
                              input_data = PDict [(''image_path'', PStr s3_path),
                                                  (''image_path_2'', PStr s3_path_2),
                                                  (''prompt'', PStr prompt),
                                                  (''seed'', PInt seed),
                                                  (''width'', PInt width),
                                                  (''height'', PInt height),
                                                  (''steps'', PInt steps'),
                                                  (''cfg'', PFloat cfg),
                                                  (''negative_prompt'', PStr negative_prompt)]
                          in (case submit_job c input_data w3 of
                                (Inl e, w4) \<Rightarrow> Some (Inl e, w4)
                              | (Inr None, w4) \<Rightarrow> Some (Inr (error_result ''Job submission failed''), w4)
                              | (Inr (Some job_id), w4) \<Rightarrow> wait_for_completion c job_id 10 1800 w4)))"

subsection \<open>batch_edit_images\<close>

text \<open>
  The \<^verbatim>\<open>for\<close> loop over \<^verbatim>\<open>enumerate(image_files)\<close>: \<open>i\<close> is the index of the
  file at the head of the list, and the three accumulators are the counters
  \<^verbatim>\<open>successful\<close> and \<^verbatim>\<open>failed\<close> and the list \<^verbatim>\<open>results\<close> of the summary.
\<close>

definition file_record :: "string \<Rightarrow> pyval \<Rightarrow> pyval \<Rightarrow> pyval" where
  "file_record image_filename err job =
     PDict [(''filename'', PStr image_filename), (''status'', PStr ''failed''),
            (''error'', err), (''job_id'', job)]"

fun batch_loop ::
  "client \<Rightarrow> string \<Rightarrow> string \<Rightarrow> string \<Rightarrow> int \<Rightarrow> int \<Rightarrow> int \<Rightarrow> int \<Rightarrow> rat \<Rightarrow> string \<Rightarrow> bool
   \<Rightarrow> nat \<Rightarrow> string list \<Rightarrow> int \<times> int \<times> pyval list \<Rightarrow> world
   \<Rightarrow> ((exn + int \<times> int \<times> pyval list) \<times> world) option" where
  "batch_loop c image_folder_path output_folder_path prompt seed width height steps cfg
     negative_prompt use_lightning i [] acc w = Some (Inr acc, w)"
| "batch_loop c image_folder_path output_folder_path prompt seed width height steps cfg
     negative_prompt use_lightning i (image_filename # files) (successful, failed, results) w =
     (let w1 = logmsg INFO ''==================== Processing started: '' w;
          image_path = path_join image_folder_path image_filename
      in case edit_single_image c image_path prompt (seed + int i) width height steps cfg
                negative_prompt use_lightning w1 of
           None \<Rightarrow> None
         | Some (Inl e, w2) \<Rightarrow> Some (Inl e, w2)
         | Some (Inr result, w2) \<Rightarrow>
             (case result of
                PDict r \<Rightarrow>
                  let (acc', w3) =
                    (if dict_get r ''status'' = PStr ''COMPLETED'' then
                       (let base_filename = stem image_filename;
                            output_filename =
                              path_join output_folder_path (''edited_'' @ base_filename @ ''.png'');
                            (saved, w3) = save_image_result result output_filename w2
                        in if saved then
                             ((successful + 1, failed,
                               results @ [PDict [(''filename'', PStr image_filename),
                                                 (''status'', PStr ''success''),
                                                 (''output_file'', PStr output_filename),
                                                 (''job_id'', dict_get r ''job_id'')]]),
                              logmsg INFO ''Processing completed'' w3)
                           else
                             ((successful, failed + 1,
                               results @ [file_record image_filename (PStr ''Result save failed'')
                                            (dict_get r ''job_id'')]),
                              logmsg ERROR ''Result save failed'' w3))
                     else
                       ((successful, failed + 1,
                         results @ [file_record image_filename
                                      (dict_get_default r ''error'' (PStr ''Unknown error''))
                                      (dict_get r ''job_id'')]),
                        logmsg ERROR ''Job failed: '' w2))
                  in batch_loop c image_folder_path output_folder_path prompt seed width height steps
                       cfg negative_prompt use_lightning (Suc i) files acc'
                       (logmsg INFO ''==================== Processing completed: '' w3)
              | _ \<Rightarrow> Some (Inl AttributeError, w2)))"

definition batch_edit_images ::
  "client \<Rightarrow> string \<Rightarrow> string \<Rightarrow> string list \<Rightarrow> string \<Rightarrow> int \<Rightarrow> int \<Rightarrow> int \<Rightarrow> int \<Rightarrow> rat \<Rightarrow> string
   \<Rightarrow> bool \<Rightarrow> world \<Rightarrow> ((exn + pyval) \<times> world) option" where
  "batch_edit_images c image_folder_path output_folder_path valid_image_extensions prompt seed
     width height steps cfg negative_prompt use_lightning w =
     (if \<not> isdir w image_folder_path
      then Some (Inr (error_result (''Image folder does not exist: '' @ image_folder_path)), w)
      else
        case makedirs output_folder_path w of
          (Some e, w1) \<Rightarrow> Some (Inl e, w1)
        | (None, w1) \<Rightarrow>
            (case listdir w1 image_folder_path of
               Inl e \<Rightarrow> Some (Inl e, w1)
             | Inr names \<Rightarrow>
                 let image_files =
                       filter (\<lambda>f. endswith_any (lower f) valid_image_extensions) names
                 in if image_files = []
                    then Some (Inr (error_result (''No image files to process: '' @ image_folder_path)), w1)
                    else
                      (case batch_loop c image_folder_path output_folder_path prompt seed width
                              height steps cfg negative_prompt use_lightning 0 image_files
                              (0, 0, []) (logmsg INFO ''Batch processing started: '' w1) of
                         None \<Rightarrow> None
                       | Some (Inl e, w2) \<Rightarrow> Some (Inl e, w2)
                       | Some (Inr (successful, failed, results), w2) \<Rightarrow>
                           Some (Inr (PDict [(''total_files'', PInt (int (length image_files))),
                                             (''successful'', PInt successful),
                                             (''failed'', PInt failed),
                                             (''results'', PList results)]),
                                 logmsg INFO ''Batch processing completed: '' w2))))"

section \<open>Notions used in the statements\<close>





text \<open>The calls the polling loop makes: status requests and sleeps.\<close>

fun is_poll_call :: "call \<Rightarrow> bool" where
  "is_poll_call (HttpGet u j) = True"
| "is_poll_call (Sleep n) = True"
| "is_poll_call _ = False"

text \<open>The bodies of the job submissions and the transfers to the object store among a list of calls, in order.\<close>

fun posted :: "call list \<Rightarrow> pyval list" where
  "posted [] = []"
| "posted (HttpPost u b # cs) = b # posted cs"
| "posted (c # cs) = posted cs"

fun uploaded :: "call list \<Rightarrow> (string \<times> string \<times> string) list" where
  "uploaded [] = []"
| "uploaded (S3Upload f b k # cs) = (f, b, k) # uploaded cs"
| "uploaded (c # cs) = uploaded cs"

text \<open>
  \<open>polling_only w w'\<close>: between \<open>w\<close> and \<open>w'\<close> nothing happened but status requests, sleeps and
  log records.
\<close>

definition polling_only :: "world \<Rightarrow> world \<Rightarrow> bool" where
  "polling_only w w' =
     (fs w' = fs w \<and> cwd w' = cwd w \<and> s3_script w' = s3_script w
      \<and> post_script w' = post_script w
      \<and> (\<exists>cs. calls w' = calls w @ cs \<and> list_all is_poll_call cs)
      \<and> (\<exists>k. get_script w' = drop k (get_script w)))"

text \<open>
  The bodies that \<open>edit_single_image\<close> and \<open>edit_dual_image\<close> post, and the reading of one
  field of the input of a posted body.
\<close>

definition single_payload ::
  "string \<Rightarrow> string \<Rightarrow> int \<Rightarrow> int \<Rightarrow> int \<Rightarrow> int \<Rightarrow> rat \<Rightarrow> string \<Rightarrow> pyval" where
  "single_payload s3_path prompt seed width height steps cfg negative_prompt =
     PDict [(''input'',
       PDict [(''image_path'', PStr s3_path), (''prompt'', PStr prompt), (''seed'', PInt seed),
              (''width'', PInt width), (''height'', PInt height), (''steps'', PInt steps),
              (''cfg'', PFloat cfg), (''negative_prompt'', PStr negative_prompt)])]"

definition dual_payload ::
  "string \<Rightarrow> string \<Rightarrow> string \<Rightarrow> int \<Rightarrow> int \<Rightarrow> int \<Rightarrow> int \<Rightarrow> rat \<Rightarrow> string \<Rightarrow> pyval" where
  "dual_payload s3_path s3_path_2 prompt seed width height steps cfg negative_prompt =
     PDict [(''input'',
       PDict [(''image_path'', PStr s3_path), (''image_path_2'', PStr s3_path_2),
              (''prompt'', PStr prompt), (''seed'', PInt seed),
              (''width'', PInt width), (''height'', PInt height), (''steps'', PInt steps),
              (''cfg'', PFloat cfg), (''negative_prompt'', PStr negative_prompt)])]"

definition payload_field :: "pyval \<Rightarrow> string \<Rightarrow> pyval" where
  "payload_field body k =
     (case body of
        PDict b \<Rightarrow> (case dict_get b ''input'' of PDict i \<Rightarrow> dict_get i k | _ \<Rightarrow> PNone)
      | _ \<Rightarrow> PNone)"


text \<open>
  \<open>extends w w'\<close>: \<open>w'\<close> is \<open>w\<close> with, at most, new directories where \<open>w\<close> had nothing.
\<close>

definition extends :: "world \<Rightarrow> world \<Rightarrow> bool" where
  "extends w w' =
     (cwd w' = cwd w \<and> clock w' = clock w \<and> s3_script w' = s3_script w
      \<and> post_script w' = post_script w \<and> get_script w' = get_script w
      \<and> calls w' = calls w \<and> logs w' = logs w
      \<and> (\<forall>q. node_at w' q = node_at w q \<or> (node_at w q = None \<and> node_at w' q = Some Dir)))"

section \<open>Example worlds\<close>

text \<open>
  The working directory \<^verbatim>\<open>/work\<close> holds the directory \<^verbatim>\<open>in\<close> with two images and a
  text file.
\<close>

definition world0 :: world where
  "world0 = \<lparr> clock = 1700000000,
              cwd = [''work''],
              fs = [([], Dir), ([''work''], Dir), ([''work'', ''in''], Dir),
                    ([''work'', ''in'', ''cat.PNG''], File [1, 2, 3]),
                    ([''work'', ''in'', ''notes.txt''], File [6]),
                    ([''work'', ''in'', ''dog.jpg''], File [4, 5])],
              s3_script = [],
              post_script = [],
              get_script = [],
              calls = [],
              logs = [] \<rparr>"

definition client0 :: client where
  "client0 = fst (init_client ''ep1'' ''key'' ''https://s3api-eu-ro-1.runpod.io/'' ''ak'' ''sk'' ''bucket'' ''eu-ro-1'' world0)"

text \<open>Worlds in which the status service answers in a given way.\<close>

definition in_queue :: http_outcome where
  "in_queue = Response (PDict [(''status'', PStr ''IN_QUEUE'')])"







text \<open>A completed result whose image carries a data-URI prefix; the payload encodes the bytes 1, 2, 3.\<close>

definition completed_result :: pyval where
  "completed_result =
     PDict [(''status'', PStr ''COMPLETED''),
            (''output'', PDict [(''image'', PStr ''data:image/png;base64,AQID'')]),
            (''job_id'', PStr ''job-1'')]"

text \<open>A world in which the transfer, the submission and the second status request succeed.\<close>

definition world_ok :: world where
  "world_ok = world0\<lparr>s3_script := [True, True],
       post_script := [Response (PDict [(''id'', PStr ''job-1'')])],
       get_script := [(3, in_queue),
         (2, Response (PDict [(''status'', PStr ''COMPLETED''),
                              (''output'', PDict [(''image'', PStr ''AQID'')])]))]\<rparr>"

section \<open>Properties\<close>

subsection \<open>The file system\<close>

lemma walk_same:
  assumes "\<And>x. (f x = Some Dir) = (g x = Some Dir)"
  shows "walk f cur cs = walk g cur cs"
  by (induction cs arbitrary: cur) (simp_all add: assms)

lemma walk_mono:
  assumes "\<And>x. f x = Some Dir \<Longrightarrow> g x = Some Dir"
    and "walk f cur cs = Inr q"
  shows "walk g cur cs = Inr q"
  using assms(2)
proof (induction cs arbitrary: cur)
  case Nil
  then show ?case by simp
next
  case (Cons c cs)
  from Cons.prems have "f cur = Some Dir"
    by (auto split: if_splits)
  with Cons show ?case
    by (auto simp: assms(1) split: if_splits)
qed

lemma walk_append:
  "walk f cur (xs @ ys) = (case walk f cur xs of Inl e \<Rightarrow> Inl e | Inr c \<Rightarrow> walk f c ys)"
  by (induction xs arbitrary: cur) simp_all

lemma walk_result:
  assumes "walk f cur cs = Inr q" "cs \<noteq> []"
  shows "f q = Some Dir \<or> (q \<noteq> [] \<and> f (butlast q) = Some Dir)"
  using assms
proof (induction cs arbitrary: cur)
  case Nil
  then show ?case by simp
next
  case (Cons c cs)
  from Cons.prems have d: "f cur = Some Dir"
    by (auto split: if_splits)
  show ?case
  proof (cases "cs = []")
    case True
    with Cons.prems d show ?thesis
      by (auto split: if_splits)
  next
    case False
    with Cons.prems d Cons.IH show ?thesis
      by (auto split: if_splits)
  qed
qed

lemma split_sep_nonempty: "split_sep p \<noteq> []"
  by (induction p) (auto split: list.splits)

lemma extends_refl: "extends w w"
  by (simp add: extends_def)

lemma extends_trans: "extends w w1 \<Longrightarrow> extends w1 w2 \<Longrightarrow> extends w w2"
  unfolding extends_def by (metis option.distinct(1))

lemma extends_dir: "extends w w' \<Longrightarrow> node_at w q = Some Dir \<Longrightarrow> node_at w' q = Some Dir"
  unfolding extends_def by (metis option.distinct(1))

lemma extends_resolve:
  assumes "extends w w'" "resolve w p = Inr q"
  shows "resolve w' p = Inr q"
proof -
  from assms(2) have ok: "path_ok p"
    and wk: "walk (node_at w) (if hd p = CHR ''/'' then [] else cwd w) (split_sep p) = Inr q"
    by (auto simp: resolve_def split: if_splits)
  have "walk (node_at w') (if hd p = CHR ''/'' then [] else cwd w) (split_sep p) = Inr q"
    using extends_dir [OF assms(1)] wk by (rule walk_mono)
  with ok assms(1) show ?thesis
    by (auto simp: resolve_def extends_def)
qed

lemma extends_isdir: "extends w w' \<Longrightarrow> isdir w p \<Longrightarrow> isdir w' p"
  using extends_resolve [of w w' p] extends_dir [of w w']
  by (auto simp: isdir_def split: sum.splits)

lemma node_at_update: "node_at (w\<lparr>fs := AList.update q n (fs w)\<rparr>) = (node_at w)(q \<mapsto> n)"
  by (rule ext) (simp add: node_at_def update_conv')

lemma mkdir_extends: "mkdir p w = Inr w' \<Longrightarrow> extends w w'"
  by (auto simp: mkdir_def extends_def node_at_update split: if_splits sum.splits)

lemma mkdir_exist_ok_extends: "extends w (snd (mkdir_exist_ok name w))"
  using mkdir_extends [of name w]
  by (auto simp: mkdir_exist_ok_def extends_refl split: sum.splits)

lemma makedirs_extends: "extends w (snd (makedirs name w))"
proof (induction name w rule: makedirs.induct)
  case (1 name w)
  show ?case
  proof (cases "split_head name \<noteq> [] \<and> split_tail name \<noteq> [] \<and> \<not> path_exists w (split_head name)")
    case False
    then have "makedirs name w = mkdir_exist_ok name w"
      by (subst makedirs.simps) auto
    then show ?thesis
      by (simp add: mkdir_exist_ok_extends)
  next
    case True
    obtain r w1 where inner: "makedirs (split_head name) w = (r, w1)"
      by (cases "makedirs (split_head name) w")
    have e1: "extends w w1"
      using "1.IH" True inner by simp
    have "snd (makedirs name w) = w1 \<or> snd (makedirs name w) = snd (mkdir_exist_ok name w1)"
      using True inner by (subst makedirs.simps, subst makedirs.simps) (auto split: option.splits)
    then show ?thesis
      using e1 mkdir_exist_ok_extends [of w1 name] extends_trans by metis
  qed
qed


lemma write_file_effect:
  assumes "write_file p bs w = Inr w'"
  shows "\<exists>q. resolve w p = Inr q \<and> node_at w q \<noteq> Some Dir
           \<and> node_at w' = (node_at w)(q \<mapsto> File bs)
           \<and> resolve w' p = Inr q \<and> q \<noteq> [] \<and> node_at w' (butlast q) = Some Dir
           \<and> w' = w\<lparr>fs := AList.update q (File bs) (fs w)\<rparr>"
proof -
  from assms obtain q where q: "resolve w p = Inr q" "node_at w q \<noteq> Some Dir"
    and w': "w' = w\<lparr>fs := AList.update q (File bs) (fs w)\<rparr>"
    by (auto simp: write_file_def split: sum.splits if_splits)
  have n: "node_at w' = (node_at w)(q \<mapsto> File bs)"
    using w' by (simp add: node_at_update)
  have same: "(node_at w x = Some Dir) = (node_at w' x = Some Dir)" for x
    using q(2) n by auto
  from q(1) have ok: "path_ok p"
    and wk: "walk (node_at w) (if hd p = CHR ''/'' then [] else cwd w) (split_sep p) = Inr q"
    by (auto simp: resolve_def split: if_splits)
  have "walk (node_at w') (if hd p = CHR ''/'' then [] else cwd w) (split_sep p) = Inr q"
    using walk_same [of "node_at w" "node_at w'", OF same] wk by simp
  then have r': "resolve w' p = Inr q"
    using ok w' by (auto simp: resolve_def)
  from walk_result [OF wk split_sep_nonempty] q(2)
  have "q \<noteq> []" "node_at w (butlast q) = Some Dir"
    by auto
  then have "q \<noteq> [] \<and> node_at w' (butlast q) = Some Dir"
    using same by simp
  with q n r' w' show ?thesis
    by auto
qed

lemma write_then_read: "write_file p bs w = Inr w' \<Longrightarrow> read_file w' p = Inr bs"
proof -
  assume "write_file p bs w = Inr w'"
  from write_file_effect [OF this] obtain q where
    "resolve w' p = Inr q" "node_at w' = (node_at w)(q \<mapsto> File bs)"
    by blast
  then show ?thesis
    by (simp add: read_file_def)
qed

lemma split_sep_snoc_slash: "split_sep (s @ ''/'') = split_sep s @ [[]]"
proof (induction s)
  case Nil
  then show ?case by simp
next
  case (Cons c s)
  obtain y ys where y: "split_sep s = y # ys"
    using split_sep_nonempty [of s] by (cases "split_sep s") auto
  with Cons show ?case
    by simp
qed

lemma split_sep_slashes: "split_sep (s @ replicate k (CHR ''/'')) = split_sep s @ replicate k []"
proof (induction k)
  case 0
  then show ?case by simp
next
  case (Suc k)
  have "split_sep (s @ replicate (Suc k) (CHR ''/'')) = split_sep ((s @ replicate k (CHR ''/'')) @ ''/'')"
    by (simp add: replicate_append_same)
  also have "\<dots> = split_sep (s @ replicate k (CHR ''/'')) @ [[]]"
    by (rule split_sep_snoc_slash)
  also have "\<dots> = split_sep s @ replicate (Suc k) []"
    using Suc by (simp add: replicate_append_same)
  finally show ?case .
qed

lemma rstrip_decomp: "\<exists>k. p = rstrip_sep p @ replicate k (CHR ''/'')"
proof -
  let ?t = "takeWhile (\<lambda>c. c = CHR ''/'') (rev p)"
  have "rev p = ?t @ dropWhile (\<lambda>c. c = CHR ''/'') (rev p)"
    by simp
  then have "p = rev (dropWhile (\<lambda>c. c = CHR ''/'') (rev p)) @ rev ?t"
    by (metis rev_append rev_rev_ident)
  moreover have "\<forall>c \<in> set (rev ?t). c = CHR ''/''"
    using set_takeWhileD by fastforce
  then have "replicate (length (rev ?t)) (CHR ''/'') = rev ?t"
    by (rule replicate_length_same)
  ultimately show ?thesis
    unfolding rstrip_sep_def by metis
qed

lemma walk_empty_components:
  "f cur = Some Dir \<Longrightarrow> walk f cur (replicate k []) = Inr cur"
  by (induction k) simp_all

lemma mkdir_isdir:
  assumes "mkdir p w = Inr w'"
  shows "isdir w' p"
proof -
  let ?base = "if hd p = CHR ''/'' then [] else cwd w"
  let ?s = "if rstrip_sep p = [] then ''/'' else rstrip_sep p"
  from assms obtain q where ok: "path_ok p"
    and wk: "walk (node_at w) ?base (split_sep ?s) = Inr q"
    and new: "node_at w q = None"
    and w': "w' = w\<lparr>fs := AList.update q Dir (fs w)\<rparr>"
    by (auto simp: mkdir_def split: if_splits sum.splits)
  have n: "node_at w' = (node_at w)(q \<mapsto> Dir)"
    using w' by (simp add: node_at_update)
  have s: "rstrip_sep p \<noteq> []"
  proof
    assume "rstrip_sep p = []"
    with wk have "walk (node_at w) ?base [[], []] = Inr q"
      by simp
    then have "node_at w q = Some Dir"
      by (auto split: if_splits)
    with new show False by simp
  qed
  obtain k where k: "p = rstrip_sep p @ replicate k (CHR ''/'')"
    using rstrip_decomp by blast
  have comps: "split_sep p = split_sep (rstrip_sep p) @ replicate k []"
    using split_sep_slashes [of "rstrip_sep p" k] k by simp
  have "walk (node_at w') ?base (split_sep (rstrip_sep p)) = Inr q"
    using wk s n by (intro walk_mono [of "node_at w" "node_at w'"]) auto
  moreover have "walk (node_at w') q (replicate k []) = Inr q"
    using n by (intro walk_empty_components) simp
  ultimately have "walk (node_at w') ?base (split_sep p) = Inr q"
    by (simp add: comps walk_append)
  then have "resolve w' p = Inr q"
    using ok w' by (auto simp: resolve_def)
  with n show ?thesis
    by (simp add: isdir_def)
qed

lemma mkdir_exist_ok_isdir:
  "mkdir_exist_ok name w = (None, w') \<Longrightarrow> isdir w' name"
  using mkdir_isdir [of name w]
  by (auto simp: mkdir_exist_ok_def split: sum.splits if_splits)

lemma makedirs_isdir:
  assumes "makedirs name w = (None, w')" "split_tail name \<noteq> ''.''"
  shows "isdir w' name"
proof -
  have "\<exists>w1. mkdir_exist_ok name w1 = (None, w')"
    using assms
    by (subst (asm) makedirs.simps) (auto split: if_splits prod.splits option.splits)
  then show ?thesis
    using mkdir_exist_ok_isdir by blast
qed

subsection \<open>Uploading\<close>

text \<open>
  Claim C8. When the local path does not exist, \<open>upload_to_s3\<close> returns \<open>None\<close> and
  issues no call to the object store (nor any other network call): the list of calls
  and the transfer script are as before, the file system is untouched, and the only
  effect is one error record in the log.
\<close>

theorem upload_missing_file_no_network:
  assumes "\<not> path_exists w file_path"
  shows "fst (upload_to_s3 c file_path s3_key w) = None
       \<and> snd (upload_to_s3 c file_path s3_key w) = w\<lparr>logs := logs w @ [(ERROR, ''File does not exist: '')]\<rparr>
       \<and> calls (snd (upload_to_s3 c file_path s3_key w)) = calls w
       \<and> s3_script (snd (upload_to_s3 c file_path s3_key w)) = s3_script w"
  using assms by (simp add: upload_to_s3_def logmsg_def)

theorem upload_missing_file_no_network_witness:
  "\<not> path_exists (world0\<lparr>s3_script := [True]\<rparr>) ''in/bird.png''
   \<and> fst (upload_to_s3 client0 ''in/bird.png'' ''input/qwen/1_bird.png'' (world0\<lparr>s3_script := [True]\<rparr>)) = None
   \<and> calls (snd (upload_to_s3 client0 ''in/bird.png'' ''input/qwen/1_bird.png'' (world0\<lparr>s3_script := [True]\<rparr>))) = []
   \<and> s3_script (snd (upload_to_s3 client0 ''in/bird.png'' ''input/qwen/1_bird.png'' (world0\<lparr>s3_script := [True]\<rparr>))) = [True]"
proof -
  have h: "\<not> path_exists (world0\<lparr>s3_script := [True]\<rparr>) ''in/bird.png''"
    by (simp add: path_exists_def resolve_def path_ok_def node_at_def world0_def)
  show ?thesis
    using h upload_missing_file_no_network [OF h, of client0 "''input/qwen/1_bird.png''"]
    by (simp add: world0_def)
qed

subsection \<open>Polling\<close>


















subsection \<open>Saving the image\<close>




end
